theory Spec2Isabelle
  imports Main "HOL-Library.Sublist"
begin

section \<open>Router-first topology: data model\<close>

text \<open>
  A document as the source builds and reads it: \<open>Document(page_content=...)\<close> with the
  metadata dictionary (empty unless given), kept as an association list.
\<close>

record document =
  page_content :: string
  metadata :: "(string \<times> string) list"

text \<open>
  The value stored under the key \<open>documents\<close>. The retriever and the grading node store a
  list of documents; \<open>web_search\<close> stores the single \<open>Document\<close> returned by
  \<open>ToolManager.search_web\<close>.
\<close>

datatype docs_value = DocList "document list" | DocSingle document

text \<open>
  \<open>GraphState\<close> is a dictionary with the keys \<open>question\<close>, \<open>documents\<close> and
  \<open>generation\<close>; a key may be absent (the run starts from \<open>{"question": question}\<close>).
  The dictionary returned by a node has the same shape, with the keys it does not name absent.
\<close>

record graph_state =
  question :: "string option"
  documents :: "docs_value option"
  generation :: "string option"

datatype fault =
  KeyError | IndexError | AttributeError | TypeError | ConfigurationFault | GraphRecursionError

text \<open>Python truthiness of the value under \<open>documents\<close>: a list is true when non-empty, an object is true.\<close>

fun truthy :: "docs_value \<Rightarrow> bool" where
  "truthy (DocList ds) = (ds \<noteq> [])"
| "truthy (DocSingle d) = True"

text \<open>
  The external collaborators (language-model chains, retriever, search API). Each call takes
  and returns a world \<open>'w\<close>, so that a collaborator may answer differently at every call.
  \<open>question_router\<close> returns the \<open>datasource\<close>, the three graders return the
  \<open>binary_score\<close>, \<open>search_tool\<close> returns the raw result dictionaries.
\<close>

record 'w collaborators =
  question_router :: "string \<Rightarrow> 'w \<Rightarrow> string \<times> 'w"
  retrieval_grader :: "string \<Rightarrow> string \<Rightarrow> 'w \<Rightarrow> string \<times> 'w"
  rag_chain :: "docs_value \<Rightarrow> string \<Rightarrow> 'w \<Rightarrow> string \<times> 'w"
  hallucination_grader :: "docs_value \<Rightarrow> string \<Rightarrow> 'w \<Rightarrow> string \<times> 'w"
  answer_grader :: "string \<Rightarrow> string \<Rightarrow> 'w \<Rightarrow> string \<times> 'w"
  question_rewriter :: "string \<Rightarrow> 'w \<Rightarrow> string \<times> 'w"
  retriever :: "string \<Rightarrow> 'w \<Rightarrow> document list \<times> 'w"
  search_tool :: "string \<Rightarrow> 'w \<Rightarrow> (string \<times> string) list list \<times> 'w"

section \<open>Web search tool (tools.py)\<close>

definition dict_get :: "(string \<times> string) list \<Rightarrow> string \<Rightarrow> string \<Rightarrow> string" where
  "dict_get d k dflt = (case map_of d k of None \<Rightarrow> dflt | Some v \<Rightarrow> v)"

definition digit :: "nat \<Rightarrow> char" where
  "digit d = ''0123456789'' ! d"

fun str_nat :: "nat \<Rightarrow> string" where
  "str_nat n = (if n < 10 then [digit n] else str_nat (n div 10) @ [digit (n mod 10)])"

fun join :: "string \<Rightarrow> string list \<Rightarrow> string" where
  "join sep [] = []"
| "join sep [x] = x"
| "join sep (x # y # ys) = x @ sep @ join sep (y # ys)"

text \<open>The two labels of the format string, as UTF-8 bytes.\<close>

definition result_label :: string where
  "result_label = [CHR 0xE7, CHR 0xBB, CHR 0x93, CHR 0xE6, CHR 0x9E, CHR 0x9C, CHR 0x20]"

definition source_label :: string where
  "source_label = [CHR 0xE6, CHR 0x9D, CHR 0xA5, CHR 0xE6, CHR 0xBA, CHR 0x90, CHR 0x3A, CHR 0x20]"

fun format_from :: "nat \<Rightarrow> (string \<times> string) list list \<Rightarrow> string list" where
  "format_from i [] = []"
| "format_from i (result # results) =
     (let content = dict_get result ''content'' '''';
          url = dict_get result ''url'' ''''
      in (result_label @ str_nat i @ '':'' @ [CHR 0x0A] @ content @ [CHR 0x0A] @ source_label @ url)
         # format_from (Suc i) results)"

definition format_results :: "(string \<times> string) list list \<Rightarrow> string" where
  "format_results results = join [CHR 0x0A, CHR 0x0A] (format_from 1 results)"

definition search :: "'w collaborators \<Rightarrow> string \<Rightarrow> 'w \<Rightarrow> document \<times> 'w" where
  "search c query w =
     (case search_tool c query w of
        (results, w') \<Rightarrow>
          (\<lparr>page_content = format_results results, metadata = []\<rparr>, w'))"

definition search_web :: "'w collaborators \<Rightarrow> string \<Rightarrow> 'w \<Rightarrow> document \<times> 'w" where
  "search_web c query w = search c query w"

section \<open>Nodes (graph_nodes.py)\<close>

definition retrieve :: "'w collaborators \<Rightarrow> graph_state \<Rightarrow> 'w \<Rightarrow> fault + graph_state \<times> 'w" where
  "retrieve c s w =
     (case question s of
        None \<Rightarrow> Inl KeyError
      | Some q \<Rightarrow>
          (case retriever c q w of
             (docs, w') \<Rightarrow>
               Inr (\<lparr>question = Some q, documents = Some (DocList docs), generation = None\<rparr>, w')))"

definition generate :: "'w collaborators \<Rightarrow> graph_state \<Rightarrow> 'w \<Rightarrow> fault + graph_state \<times> 'w" where
  "generate c s w =
     (case question s of
        None \<Rightarrow> Inl KeyError
      | Some q \<Rightarrow>
          (case documents s of
             None \<Rightarrow> Inl KeyError
           | Some docs \<Rightarrow>
               (case rag_chain c docs q w of
                  (gen, w') \<Rightarrow>
                    Inr (\<lparr>question = Some q, documents = Some docs, generation = Some gen\<rparr>, w'))))"

text \<open>The loop of \<open>grade_documents\<close>: one grader call per document, appending the relevant ones.\<close>

fun grade_loop ::
  "(string \<Rightarrow> string \<Rightarrow> 'w \<Rightarrow> string \<times> 'w) \<Rightarrow> string \<Rightarrow> document list \<Rightarrow> document list \<Rightarrow> 'w
     \<Rightarrow> document list \<times> 'w" where
  "grade_loop g q [] filtered_docs w = (filtered_docs, w)"
| "grade_loop g q (d # ds) filtered_docs w =
     (case g q (page_content d) w of
        (grade, w') \<Rightarrow>
          grade_loop g q ds (if grade = ''yes'' then filtered_docs @ [d] else filtered_docs) w')"

text \<open>
  Iterating over a single \<open>Document\<close> yields its fields as pairs, and reading
  \<open>page_content\<close> of a pair raises.
\<close>

definition grade_documents :: "'w collaborators \<Rightarrow> graph_state \<Rightarrow> 'w \<Rightarrow> fault + graph_state \<times> 'w" where
  "grade_documents c s w =
     (case question s of
        None \<Rightarrow> Inl KeyError
      | Some q \<Rightarrow>
          (case documents s of
             None \<Rightarrow> Inl KeyError
           | Some (DocSingle d) \<Rightarrow> Inl AttributeError
           | Some (DocList ds) \<Rightarrow>
               (case grade_loop (retrieval_grader c) q ds [] w of
                  (filtered_docs, w') \<Rightarrow>
                    Inr (\<lparr>question = Some q, documents = Some (DocList filtered_docs),
                          generation = None\<rparr>, w'))))"

definition transform_query :: "'w collaborators \<Rightarrow> graph_state \<Rightarrow> 'w \<Rightarrow> fault + graph_state \<times> 'w" where
  "transform_query c s w =
     (case question s of
        None \<Rightarrow> Inl KeyError
      | Some q \<Rightarrow>
          (case documents s of
             None \<Rightarrow> Inl KeyError
           | Some docs \<Rightarrow>
               (case question_rewriter c q w of
                  (better_question, w') \<Rightarrow>
                    Inr (\<lparr>question = Some better_question, documents = Some docs,
                          generation = None\<rparr>, w'))))"

definition web_search :: "'w collaborators \<Rightarrow> graph_state \<Rightarrow> 'w \<Rightarrow> fault + graph_state \<times> 'w" where
  "web_search c s w =
     (case question s of
        None \<Rightarrow> Inl KeyError
      | Some q \<Rightarrow>
          (case search_web c q w of
             (web_results, w') \<Rightarrow>
               Inr (\<lparr>question = Some q, documents = Some (DocSingle web_results),
                     generation = None\<rparr>, w')))"

section \<open>Edges (graph_edges.py)\<close>

text \<open>\<open>route_question\<close> has no \<open>else\<close> branch: any other datasource falls through and returns \<open>None\<close>.\<close>

definition route_question :: "'w collaborators \<Rightarrow> graph_state \<Rightarrow> 'w \<Rightarrow> fault + string option \<times> 'w" where
  "route_question c s w =
     (case question s of
        None \<Rightarrow> Inl KeyError
      | Some q \<Rightarrow>
          (case question_router c q w of
             (datasource, w') \<Rightarrow>
               if datasource = ''web_search'' then Inr (Some ''web_search'', w')
               else if datasource = ''vectorstore'' then Inr (Some ''vectorstore'', w')
               else Inr (None, w')))"

text \<open>
  The branch that returns \<open>generate\<close> first prints \<open>len(filtered_documents)\<close>, which raises
  on a single \<open>Document\<close> (an object without a length).
\<close>

definition decide_to_generate :: "graph_state \<Rightarrow> fault + string" where
  "decide_to_generate s =
     (let filtered_documents = (case documents s of None \<Rightarrow> DocList [] | Some v \<Rightarrow> v)
      in if \<not> truthy filtered_documents then Inr ''transform_query''
         else (case filtered_documents of
                 DocList ds \<Rightarrow> Inr ''generate''
               | DocSingle d \<Rightarrow> Inl TypeError))"

definition grade_generation_v_documents_and_question ::
  "'w collaborators \<Rightarrow> graph_state \<Rightarrow> 'w \<Rightarrow> fault + string \<times> 'w" where
  "grade_generation_v_documents_and_question c s w =
     (case question s of
        None \<Rightarrow> Inl KeyError
      | Some q \<Rightarrow>
          (case documents s of
             None \<Rightarrow> Inl KeyError
           | Some docs \<Rightarrow>
               (case generation s of
                  None \<Rightarrow> Inl KeyError
                | Some gen \<Rightarrow>
                    (case hallucination_grader c docs gen w of
                       (grade, w') \<Rightarrow>
                         if grade = ''yes''
                         then (case answer_grader c q gen w' of
                                 (grade2, w'') \<Rightarrow>
                                   if grade2 = ''yes'' then Inr (''useful'', w'')
                                   else Inr (''not useful'', w''))
                         else Inr (''not supported'', w')))))"




section \<open>Graph wiring (workflow.py, build_graph)\<close>

datatype node = Web_search | Retrieve | Grade_documents | Generate | Transform_query

datatype target = Node node | END

definition entry_map :: "string \<Rightarrow> target option" where
  "entry_map = [''web_search'' \<mapsto> Node Web_search, ''vectorstore'' \<mapsto> Node Retrieve]"

definition grade_documents_map :: "string \<Rightarrow> target option" where
  "grade_documents_map =
     [''transform_query'' \<mapsto> Node Transform_query, ''generate'' \<mapsto> Node Generate]"

definition generate_map :: "string \<Rightarrow> target option" where
  "generate_map =
     [''not supported'' \<mapsto> Node Generate, ''useful'' \<mapsto> END,
      ''not useful'' \<mapsto> Node Transform_query]"

fun node_fn :: "node \<Rightarrow> 'w collaborators \<Rightarrow> graph_state \<Rightarrow> 'w \<Rightarrow> fault + graph_state \<times> 'w" where
  "node_fn Web_search = web_search"
| "node_fn Retrieve = retrieve"
| "node_fn Grade_documents = grade_documents"
| "node_fn Generate = generate"
| "node_fn Transform_query = transform_query"

section \<open>Graph runtime\<close>

text \<open>
  Modelled from the spec: the merge of a node's returned dictionary into the running state,
  which the graph library performs and the repository only configures through the state
  schema. \<open>GraphState\<close> declares no reducer for its keys, so a key named by the patch
  overwrites the state's value and a key not named keeps it.
\<close>

definition merge :: "graph_state \<Rightarrow> graph_state \<Rightarrow> graph_state" where
  "merge s p =
     \<lparr>question = (case question p of None \<Rightarrow> question s | Some v \<Rightarrow> Some v),
      documents = (case documents p of None \<Rightarrow> documents s | Some v \<Rightarrow> Some v),
      generation = (case generation p of None \<Rightarrow> generation s | Some v \<Rightarrow> Some v)\<rparr>"

text \<open>
  Modelled from the spec: the runtime's lookup of a router's label in the mapping given to
  \<open>add_conditional_edges\<close>. A label with no entry (also the \<open>None\<close> of a router that fell
  through) is a fatal configuration fault, never defaulted to an edge.
\<close>

definition dispatch :: "(string \<Rightarrow> target option) \<Rightarrow> string option \<Rightarrow> fault + target" where
  "dispatch path_map label =
     (case label of
        None \<Rightarrow> Inl ConfigurationFault
      | Some l \<Rightarrow> (case path_map l of None \<Rightarrow> Inl ConfigurationFault | Some t \<Rightarrow> Inr t))"

text \<open>The edge leaving a node, evaluated on the merged state.\<close>

fun next_target :: "node \<Rightarrow> 'w collaborators \<Rightarrow> graph_state \<Rightarrow> 'w \<Rightarrow> fault + target \<times> 'w" where
  "next_target Web_search c s w = Inr (Node Generate, w)"
| "next_target Retrieve c s w = Inr (Node Grade_documents, w)"
| "next_target Transform_query c s w = Inr (Node Retrieve, w)"
| "next_target Grade_documents c s w =
     (case decide_to_generate s of
        Inl e \<Rightarrow> Inl e
      | Inr label \<Rightarrow>
          (case dispatch grade_documents_map (Some label) of
             Inl e \<Rightarrow> Inl e
           | Inr t \<Rightarrow> Inr (t, w)))"
| "next_target Generate c s w =
     (case grade_generation_v_documents_and_question c s w of
        Inl e \<Rightarrow> Inl e
      | Inr (label, w') \<Rightarrow>
          (case dispatch generate_map (Some label) of
             Inl e \<Rightarrow> Inl e
           | Inr t \<Rightarrow> Inr (t, w')))"

text \<open>
  A run in progress: the merged state, the collaborators' world, the trace of executed
  steps with the patch each returned, and the node to execute next.
\<close>

record 'w run_state =
  state :: graph_state
  world :: 'w
  trace :: "(node \<times> graph_state) list"
  nxt :: target

definition start :: "'w collaborators \<Rightarrow> string \<Rightarrow> 'w \<Rightarrow> fault + 'w run_state" where
  "start c q w =
     (let inputs = \<lparr>question = Some q, documents = None, generation = None\<rparr>
      in case route_question c inputs w of
           Inl e \<Rightarrow> Inl e
         | Inr (label, w') \<Rightarrow>
             (case dispatch entry_map label of
                Inl e \<Rightarrow> Inl e
              | Inr t \<Rightarrow> Inr \<lparr>state = inputs, world = w', trace = [], nxt = t\<rparr>))"

text \<open>One step execution: run the node, merge its patch, resolve the outgoing edge.\<close>

definition exec_node :: "'w collaborators \<Rightarrow> node \<Rightarrow> 'w run_state \<Rightarrow> fault + 'w run_state" where
  "exec_node c n r =
     (case node_fn n c (state r) (world r) of
        Inl e \<Rightarrow> Inl e
      | Inr (patch, w') \<Rightarrow>
          (let s' = merge (state r) patch
           in case next_target n c s' w' of
                Inl e \<Rightarrow> Inl e
              | Inr (t, w'') \<Rightarrow>
                  Inr \<lparr>state = s', world = w'', trace = trace r @ [(n, patch)], nxt = t\<rparr>))"

text \<open>
  Modelled from the spec: the engine's maximum step-execution count per run. It is not in the
  repository's files: the graph library keeps it as its recursion limit, and the repository
  calls \<open>stream(inputs)\<close> without a configuration, so the library's default of 25 steps
  applies. A run that has executed that many steps and has not reached \<open>END\<close> is ended by
  the library's recursion error.
\<close>

definition recursion_limit :: nat where
  "recursion_limit = 25"

text \<open>
  The stream loop with \<open>k\<close> step executions left: step until the graph reaches \<open>END\<close>, a
  fault is raised or the limit is used up.
\<close>

fun stream :: "nat \<Rightarrow> 'w collaborators \<Rightarrow> 'w run_state \<Rightarrow> fault + 'w run_state" where
  "stream 0 c r = (case nxt r of END \<Rightarrow> Inr r | Node n \<Rightarrow> Inl GraphRecursionError)"
| "stream (Suc k) c r =
     (case nxt r of
        END \<Rightarrow> Inr r
      | Node n \<Rightarrow>
          (case exec_node c n r of
             Inl e \<Rightarrow> Inl e
           | Inr r' \<Rightarrow> stream k c r'))"

text \<open>The run observed for at most \<open>k\<close> step executions, whatever the limit.\<close>

fun steps :: "nat \<Rightarrow> 'w collaborators \<Rightarrow> 'w run_state \<Rightarrow> fault + 'w run_state" where
  "steps 0 c r = Inr r"
| "steps (Suc k) c r =
     (case nxt r of
        END \<Rightarrow> Inr r
      | Node n \<Rightarrow>
          (case exec_node c n r of
             Inl e \<Rightarrow> Inl e
           | Inr r' \<Rightarrow> steps k c r'))"

text \<open>
  \<open>AdaptiveRAGWorkflow.run\<close>: \<open>final_state\<close> is the value of the last streamed output, that
  is the patch of the last executed node (\<open>None\<close> when nothing was streamed).
\<close>

definition final_state :: "'w run_state \<Rightarrow> graph_state option" where
  "final_state r = (case trace r of [] \<Rightarrow> None | _ \<Rightarrow> Some (snd (last (trace r))))"

definition run :: "'w collaborators \<Rightarrow> string \<Rightarrow> 'w \<Rightarrow> fault + graph_state option" where
  "run c q w =
     (case start c q w of
        Inl e \<Rightarrow> Inl e
      | Inr r0 \<Rightarrow>
          (case stream recursion_limit c r0 of
             Inl e \<Rightarrow> Inl e
           | Inr r \<Rightarrow> Inr (final_state r)))"

section \<open>Agent-first topology (agentic_rag_project)\<close>

datatype role = Human | AI | Tool

record message =
  role :: role
  content :: string
  tool_calls :: "(string \<times> string) list"

text \<open>
  What a node may put in the list under \<open>messages\<close>: a message object, or a plain string
  (the \<open>generate\<close> node returns the output of a string parser).
\<close>

datatype message_like = Msg message | Text string

record agent_state =
  messages :: "message list"

text \<open>
  The collaborators of the agent-first nodes. \<open>tool_node\<close> is the prebuilt retrieval tool
  node, which answers the tool calls of the newest message with tool messages. The fixed prompt
  text around the question in \<open>rewrite\<close> is taken as the two strings
  \<open>rewrite_prompt_head\<close> and \<open>rewrite_prompt_tail\<close>.
\<close>

record 'w agent_collaborators =
  agent_model :: "message list \<Rightarrow> 'w \<Rightarrow> message \<times> 'w"
  tool_node :: "message list \<Rightarrow> 'w \<Rightarrow> message_like list \<times> 'w"
  grader_chain :: "string \<Rightarrow> string \<Rightarrow> 'w \<Rightarrow> string \<times> 'w"
  rewrite_model :: "message list \<Rightarrow> 'w \<Rightarrow> message \<times> 'w"
  generate_chain :: "string \<Rightarrow> string \<Rightarrow> 'w \<Rightarrow> string \<times> 'w"
  rewrite_prompt_head :: string
  rewrite_prompt_tail :: string

subsection \<open>Nodes (nodes.py)\<close>

definition agent :: "'w agent_collaborators \<Rightarrow> agent_state \<Rightarrow> 'w \<Rightarrow> fault + message_like list \<times> 'w" where
  "agent c s w =
     (case agent_model c (messages s) w of
        (response, w') \<Rightarrow> Inr ([Msg response], w'))"

text \<open>
  \<open>grader_chain c question context\<close> is \<open>chain.invoke({"question": question, "context": docs})\<close>.
  \<open>messages[-1]\<close> and \<open>messages[0]\<close> raise on an empty transcript.
\<close>

definition grade_documents_agent ::
  "'w agent_collaborators \<Rightarrow> agent_state \<Rightarrow> 'w \<Rightarrow> fault + string \<times> 'w" where
  "grade_documents_agent c s w =
     (case messages s of
        [] \<Rightarrow> Inl IndexError
      | m0 # ms \<Rightarrow>
          (let last_message = last (m0 # ms);
               question = content m0;
               docs = content last_message
           in case grader_chain c question docs w of
                (score, w') \<Rightarrow>
                  if score = ''yes'' then Inr (''generate'', w') else Inr (''rewrite'', w')))"

definition rewrite :: "'w agent_collaborators \<Rightarrow> agent_state \<Rightarrow> 'w \<Rightarrow> fault + message_like list \<times> 'w" where
  "rewrite c s w =
     (case messages s of
        [] \<Rightarrow> Inl IndexError
      | m0 # ms \<Rightarrow>
          (let question = content m0;
               msg = [\<lparr>role = Human,
                       content = rewrite_prompt_head c @ question @ rewrite_prompt_tail c,
                       tool_calls = []\<rparr>]
           in case rewrite_model c msg w of
                (response, w') \<Rightarrow> Inr ([Msg response], w')))"

text \<open>\<open>generate_chain c context question\<close> is \<open>rag_chain.invoke({"context": docs, "question": question})\<close>.\<close>

definition generate_agent ::
  "'w agent_collaborators \<Rightarrow> agent_state \<Rightarrow> 'w \<Rightarrow> fault + message_like list \<times> 'w" where
  "generate_agent c s w =
     (case messages s of
        [] \<Rightarrow> Inl IndexError
      | m0 # ms \<Rightarrow>
          (let question = content m0;
               last_message = last (m0 # ms);
               docs = content last_message
           in case generate_chain c docs question w of
                (response, w') \<Rightarrow> Inr ([Text response], w')))"

definition retrieve_agent ::
  "'w agent_collaborators \<Rightarrow> agent_state \<Rightarrow> 'w \<Rightarrow> fault + message_like list \<times> 'w" where
  "retrieve_agent c s w = Inr (tool_node c (messages s) w)"

subsection \<open>Graph wiring (workflow.py, build_workflow)\<close>

text \<open>
  Modelled from the spec: the reducer \<open>add_messages\<close> declared for \<open>messages\<close> in
  \<open>AgentState\<close>, which the graph library provides. The patch's messages are appended to the
  transcript; a plain string is taken as a human message.
\<close>

fun coerce :: "message_like \<Rightarrow> message" where
  "coerce (Msg m) = m"
| "coerce (Text t) = \<lparr>role = Human, content = t, tool_calls = []\<rparr>"

definition add_messages :: "message list \<Rightarrow> message_like list \<Rightarrow> message list" where
  "add_messages left right = left @ map coerce right"

definition merge_agent :: "agent_state \<Rightarrow> message_like list \<Rightarrow> agent_state" where
  "merge_agent s patch = \<lparr>messages = add_messages (messages s) patch\<rparr>"

text \<open>
  Modelled from the spec: the prebuilt condition \<open>tools_condition\<close> of the graph library,
  which asks whether the newest message requests a tool.
\<close>

definition tools_condition :: "agent_state \<Rightarrow> string" where
  "tools_condition s =
     (case messages s of
        [] \<Rightarrow> ''__end__''
      | m0 # ms \<Rightarrow> if tool_calls (last (m0 # ms)) \<noteq> [] then ''tools'' else ''__end__'')"

datatype agent_node = Agent | Retrieve_tool | Rewrite | Generate_answer

datatype agent_target = ANode agent_node | AEND

definition agent_map :: "string \<Rightarrow> agent_target option" where
  "agent_map = [''tools'' \<mapsto> ANode Retrieve_tool, ''__end__'' \<mapsto> AEND]"

text \<open>
  The conditional edge after \<open>retrieve\<close> is added without a mapping: the label returned by
  \<open>grade_documents\<close> is the name of the next node, as registered by \<open>add_node\<close>.
\<close>

definition node_named :: "string \<Rightarrow> agent_target option" where
  "node_named =
     [''agent'' \<mapsto> ANode Agent, ''retrieve'' \<mapsto> ANode Retrieve_tool,
      ''rewrite'' \<mapsto> ANode Rewrite, ''generate'' \<mapsto> ANode Generate_answer]"

fun agent_node_fn ::
  "agent_node \<Rightarrow> 'w agent_collaborators \<Rightarrow> agent_state \<Rightarrow> 'w \<Rightarrow> fault + message_like list \<times> 'w" where
  "agent_node_fn Agent = agent"
| "agent_node_fn Retrieve_tool = retrieve_agent"
| "agent_node_fn Rewrite = rewrite"
| "agent_node_fn Generate_answer = generate_agent"

text \<open>The same lookup for the agent-first graph.\<close>

definition dispatch_agent :: "(string \<Rightarrow> agent_target option) \<Rightarrow> string \<Rightarrow> fault + agent_target" where
  "dispatch_agent path_map label =
     (case path_map label of None \<Rightarrow> Inl ConfigurationFault | Some t \<Rightarrow> Inr t)"

fun agent_next_target ::
  "agent_node \<Rightarrow> 'w agent_collaborators \<Rightarrow> agent_state \<Rightarrow> 'w \<Rightarrow> fault + agent_target \<times> 'w" where
  "agent_next_target Agent c s w =
     (case dispatch_agent agent_map (tools_condition s) of
        Inl e \<Rightarrow> Inl e
      | Inr t \<Rightarrow> Inr (t, w))"
| "agent_next_target Retrieve_tool c s w =
     (case grade_documents_agent c s w of
        Inl e \<Rightarrow> Inl e
      | Inr (label, w') \<Rightarrow>
          (case dispatch_agent node_named label of
             Inl e \<Rightarrow> Inl e
           | Inr t \<Rightarrow> Inr (t, w')))"
| "agent_next_target Generate_answer c s w = Inr (AEND, w)"
| "agent_next_target Rewrite c s w = Inr (ANode Agent, w)"

record 'w agent_run =
  a_state :: agent_state
  a_world :: 'w
  a_trace :: "(agent_node \<times> message_like list) list"
  a_nxt :: agent_target

text \<open>The input \<open>{"messages": [("user", question)]}\<close> becomes a transcript of one human message.\<close>

definition agent_start :: "string \<Rightarrow> 'w \<Rightarrow> 'w agent_run" where
  "agent_start q w =
     \<lparr>a_state = \<lparr>messages = [\<lparr>role = Human, content = q, tool_calls = []\<rparr>]\<rparr>,
      a_world = w, a_trace = [], a_nxt = ANode Agent\<rparr>"

definition agent_exec_node ::
  "'w agent_collaborators \<Rightarrow> agent_node \<Rightarrow> 'w agent_run \<Rightarrow> fault + 'w agent_run" where
  "agent_exec_node c n r =
     (case agent_node_fn n c (a_state r) (a_world r) of
        Inl e \<Rightarrow> Inl e
      | Inr (patch, w') \<Rightarrow>
          (let s' = merge_agent (a_state r) patch
           in case agent_next_target n c s' w' of
                Inl e \<Rightarrow> Inl e
              | Inr (t, w'') \<Rightarrow>
                  Inr \<lparr>a_state = s', a_world = w'', a_trace = a_trace r @ [(n, patch)],
                       a_nxt = t\<rparr>))"

text \<open>The agent-first stream loop, under the same limit.\<close>

fun agent_stream :: "nat \<Rightarrow> 'w agent_collaborators \<Rightarrow> 'w agent_run \<Rightarrow> fault + 'w agent_run" where
  "agent_stream 0 c r = (case a_nxt r of AEND \<Rightarrow> Inr r | ANode n \<Rightarrow> Inl GraphRecursionError)"
| "agent_stream (Suc k) c r =
     (case a_nxt r of
        AEND \<Rightarrow> Inr r
      | ANode n \<Rightarrow>
          (case agent_exec_node c n r of
             Inl e \<Rightarrow> Inl e
           | Inr r' \<Rightarrow> agent_stream k c r'))"

fun agent_steps :: "nat \<Rightarrow> 'w agent_collaborators \<Rightarrow> 'w agent_run \<Rightarrow> fault + 'w agent_run" where
  "agent_steps 0 c r = Inr r"
| "agent_steps (Suc k) c r =
     (case a_nxt r of
        AEND \<Rightarrow> Inr r
      | ANode n \<Rightarrow>
          (case agent_exec_node c n r of
             Inl e \<Rightarrow> Inl e
           | Inr r' \<Rightarrow> agent_steps k c r'))"

subsection \<open>Query (main.py)\<close>

text \<open>
  \<open>AgenticRAGSystem.query\<close> keeps the first entry of the patch of each \<open>generate\<close> output and
  returns the last one kept, or the fallback text when none was kept or it is the empty string.
\<close>

definition no_answer :: string where
  "no_answer =
     [CHR 0xE6, CHR 0x9C, CHR 0xAA, CHR 0xE8, CHR 0x83, CHR 0xBD, CHR 0xE7, CHR 0x94, CHR 0x9F,
      CHR 0xE6, CHR 0x88, CHR 0x90, CHR 0xE7, CHR 0xAD, CHR 0x94, CHR 0xE6, CHR 0xA1, CHR 0x88]"

fun final_answer ::
  "message_like option \<Rightarrow> (agent_node \<times> message_like list) list \<Rightarrow> fault + message_like option" where
  "final_answer acc [] = Inr acc"
| "final_answer acc ((key, msgs) # outputs) =
     (if key = Generate_answer then
        (case msgs of [] \<Rightarrow> Inl IndexError | m # _ \<Rightarrow> final_answer (Some m) outputs)
      else final_answer acc outputs)"

definition query :: "'w agent_collaborators \<Rightarrow> string \<Rightarrow> 'w \<Rightarrow> fault + message_like" where
  "query c q w =
     (case agent_stream recursion_limit c (agent_start q w) of
        Inl e \<Rightarrow> Inl e
      | Inr r \<Rightarrow>
          (case final_answer None (a_trace r) of
             Inl e \<Rightarrow> Inl e
           | Inr None \<Rightarrow> Inr (Text no_answer)
           | Inr (Some (Msg m)) \<Rightarrow> Inr (Msg m)
           | Inr (Some (Text t)) \<Rightarrow>
               if t \<noteq> [] then Inr (Text t) else Inr (Text no_answer)))"

section \<open>Instruments and stub collaborators\<close>

text \<open>
  The grades returned by the successive calls of a grader on a list of documents, each call
  made in the world the previous one left.
\<close>

fun verdicts ::
  "(string \<Rightarrow> string \<Rightarrow> 'w \<Rightarrow> string \<times> 'w) \<Rightarrow> string \<Rightarrow> document list \<Rightarrow> 'w \<Rightarrow> string list" where
  "verdicts g q [] w = []"
| "verdicts g q (d # ds) w =
     (case g q (page_content d) w of (v, w') \<Rightarrow> v # verdicts g q ds w')"

text \<open>The documents whose grade, at the same position, is \<open>yes\<close>.\<close>

definition relevant_docs :: "document list \<Rightarrow> string list \<Rightarrow> document list" where
  "relevant_docs ds vs = map fst (filter (\<lambda>dv. snd dv = ''yes'') (zip ds vs))"

text \<open>A grader wrapped so that the world also records every call made to it.\<close>

definition logged ::
  "(string \<Rightarrow> string \<Rightarrow> 'w \<Rightarrow> string \<times> 'w) \<Rightarrow> string \<Rightarrow> string \<Rightarrow> 'w \<times> (string \<times> string) list
     \<Rightarrow> string \<times> 'w \<times> (string \<times> string) list" where
  "logged g q d wl = (case g q d (fst wl) of (v, w') \<Rightarrow> (v, (w', snd wl @ [(q, d)])))"


text \<open>Stub collaborators over a call counter, for concrete runs.\<close>

definition doc_a :: document where
  "doc_a = \<lparr>page_content = ''memory'', metadata = [(''source'', ''kb'')]\<rparr>"

definition doc_b :: document where
  "doc_b = \<lparr>page_content = ''weather'', metadata = [(''source'', ''kb'')]\<rparr>"

definition stub :: "nat collaborators" where
  "stub =
     \<lparr>question_router = (\<lambda>q w. (''vectorstore'', Suc w)),
      retrieval_grader = (\<lambda>q d w. (if d = ''memory'' then ''yes'' else ''no'', Suc w)),
      rag_chain = (\<lambda>D q w. (''answer'', Suc w)),
      hallucination_grader = (\<lambda>D g w. (''yes'', Suc w)),
      answer_grader = (\<lambda>q g w. (''yes'', Suc w)),
      question_rewriter = (\<lambda>q w. (q @ ''?'', Suc w)),
      retriever = (\<lambda>q w. ([doc_a, doc_b], Suc w)),
      search_tool = (\<lambda>q w. ([[(''content'', ''sunny''), (''url'', ''http://w'')]], Suc w))\<rparr>"

definition stub_state :: graph_state where
  "stub_state = \<lparr>question = Some ''q'', documents = Some (DocList [doc_a, doc_b]),
                 generation = Some ''g''\<rparr>"

definition stub_irrelevant :: "nat collaborators" where
  "stub_irrelevant = stub\<lparr>retrieval_grader := (\<lambda>q d w. (''no'', Suc w))\<rparr>"

definition stub_ungrounded :: "nat collaborators" where
  "stub_ungrounded = stub\<lparr>hallucination_grader := (\<lambda>D g w. (''no'', Suc w))\<rparr>"

definition stub_unrouted :: "nat collaborators" where
  "stub_unrouted = stub\<lparr>question_router := (\<lambda>q w. (''database'', Suc w))\<rparr>"


definition stub_silent :: "nat collaborators" where
  "stub_silent = stub\<lparr>rag_chain := (\<lambda>D q w. ('''', Suc w))\<rparr>"

definition retrieve_run :: "nat run_state" where
  "retrieve_run =
     \<lparr>state = \<lparr>question = Some ''q'', documents = None, generation = None\<rparr>,
      world = 1, trace = [], nxt = Node Retrieve\<rparr>"

definition generate_run :: "nat run_state" where
  "generate_run =
     \<lparr>state = \<lparr>question = Some ''q'', documents = Some (DocList [doc_a]), generation = None\<rparr>,
      world = 4,
      trace = [(Retrieve, \<lparr>question = Some ''q'', documents = Some (DocList [doc_a, doc_b]), generation = None\<rparr>),
               (Grade_documents, \<lparr>question = Some ''q'', documents = Some (DocList [doc_a]), generation = None\<rparr>)],
      nxt = Node Generate\<rparr>"

definition with_log :: "'w collaborators \<Rightarrow> ('w \<times> (string \<times> string) list) collaborators" where
  "with_log c =
     \<lparr>question_router = (\<lambda>q wl. case question_router c q (fst wl) of (x, w') \<Rightarrow> (x, (w', snd wl))),
      retrieval_grader = logged (retrieval_grader c),
      rag_chain = (\<lambda>D q wl. case rag_chain c D q (fst wl) of (x, w') \<Rightarrow> (x, (w', snd wl))),
      hallucination_grader =
        (\<lambda>D g wl. case hallucination_grader c D g (fst wl) of (x, w') \<Rightarrow> (x, (w', snd wl))),
      answer_grader = (\<lambda>q g wl. case answer_grader c q g (fst wl) of (x, w') \<Rightarrow> (x, (w', snd wl))),
      question_rewriter = (\<lambda>q wl. case question_rewriter c q (fst wl) of (x, w') \<Rightarrow> (x, (w', snd wl))),
      retriever = (\<lambda>q wl. case retriever c q (fst wl) of (x, w') \<Rightarrow> (x, (w', snd wl))),
      search_tool = (\<lambda>q wl. case search_tool c q (fst wl) of (x, w') \<Rightarrow> (x, (w', snd wl)))\<rparr>"

text \<open>Agent stubs over a log of the questions handed to the grader and the generator.\<close>

definition tool_message :: message where
  "tool_message = \<lparr>role = Tool, content = ''docs'', tool_calls = []\<rparr>"

definition agent_stub :: "string list agent_collaborators" where
  "agent_stub =
     \<lparr>agent_model = (\<lambda>msgs w. (\<lparr>role = AI, content = '''', tool_calls = [(''retrieve'', content (last msgs))]\<rparr>, w)),
      tool_node = (\<lambda>msgs w. ([Msg tool_message], w)),
      grader_chain = (\<lambda>q ctx w. (if w = [] then ''no'' else ''yes'', w @ [q])),
      rewrite_model = (\<lambda>msgs w. (\<lparr>role = AI, content = ''better q'', tool_calls = []\<rparr>, w)),
      generate_chain = (\<lambda>ctx q w. (''answer'', w @ [q])),
      rewrite_prompt_head = ''Rephrase: '',
      rewrite_prompt_tail = ''.''\<rparr>"

definition agent_direct :: "string list agent_collaborators" where
  "agent_direct = agent_stub\<lparr>agent_model := (\<lambda>msgs w. (\<lparr>role = AI, content = ''hello'', tool_calls = []\<rparr>, w))\<rparr>"

definition agent_final :: "string list agent_run" where
  "agent_final =
     \<lparr>a_state = \<lparr>messages =
        [\<lparr>role = Human, content = ''q'', tool_calls = []\<rparr>,
         \<lparr>role = AI, content = '''', tool_calls = [(''retrieve'', ''q'')]\<rparr>,
         tool_message,
         \<lparr>role = AI, content = ''better q'', tool_calls = []\<rparr>,
         \<lparr>role = AI, content = '''', tool_calls = [(''retrieve'', ''better q'')]\<rparr>,
         tool_message,
         \<lparr>role = Human, content = ''answer'', tool_calls = []\<rparr>]\<rparr>,
      a_world = [''q'', ''q'', ''q''],
      a_trace =
        [(Agent, [Msg \<lparr>role = AI, content = '''', tool_calls = [(''retrieve'', ''q'')]\<rparr>]),
         (Retrieve_tool, [Msg tool_message]),
         (Rewrite, [Msg \<lparr>role = AI, content = ''better q'', tool_calls = []\<rparr>]),
         (Agent, [Msg \<lparr>role = AI, content = '''', tool_calls = [(''retrieve'', ''better q'')]\<rparr>]),
         (Retrieve_tool, [Msg tool_message]),
         (Generate_answer, [Text ''answer''])],
      a_nxt = AEND\<rparr>"

text \<open>Predicates and concrete runs used by the statements on whole runs.\<close>

definition accepted :: "'w collaborators \<Rightarrow> 'w run_state \<Rightarrow> bool" where
  "accepted c r =
     (\<exists>t p s wa wb g. trace r = t @ [(Generate, p)] \<and> final_state r = Some p
        \<and> generate c s wa = Inr (p, wb) \<and> generation p = Some g
        \<and> generation (state r) = Some g)"

definition no_generate :: "(agent_node \<times> message_like list) list \<Rightarrow> bool" where
  "no_generate t = (Generate_answer \<notin> fst ` set t)"

definition agent_accepted :: "'w agent_collaborators \<Rightarrow> 'w agent_run \<Rightarrow> bool" where
  "agent_accepted c r =
     (\<exists>t g s wa wb. a_trace r = t @ [(Generate_answer, [Text g])] \<and> no_generate t
        \<and> generate_agent c s wa = Inr ([Text g], wb))"

definition agent_inv :: "'w agent_collaborators \<Rightarrow> 'w agent_run \<Rightarrow> bool" where
  "agent_inv c r = (no_generate (a_trace r) \<or> (a_nxt r = AEND \<and> agent_accepted c r))"

definition accepted_run :: "nat run_state" where
  "accepted_run =
     \<lparr>state = \<lparr>question = Some ''q'', documents = Some (DocList [doc_a]), generation = Some ''answer''\<rparr>,
      world = 7,
      trace = [(Retrieve, \<lparr>question = Some ''q'', documents = Some (DocList [doc_a, doc_b]), generation = None\<rparr>),
               (Grade_documents, \<lparr>question = Some ''q'', documents = Some (DocList [doc_a]), generation = None\<rparr>),
               (Generate, \<lparr>question = Some ''q'', documents = Some (DocList [doc_a]), generation = Some ''answer''\<rparr>)],
      nxt = END\<rparr>"

definition silent_run :: "nat run_state" where
  "silent_run =
     \<lparr>state = \<lparr>question = Some ''q'', documents = Some (DocList [doc_a]), generation = Some ''''\<rparr>,
      world = 7,
      trace = [(Retrieve, \<lparr>question = Some ''q'', documents = Some (DocList [doc_a, doc_b]), generation = None\<rparr>),
               (Grade_documents, \<lparr>question = Some ''q'', documents = Some (DocList [doc_a]), generation = None\<rparr>),
               (Generate, \<lparr>question = Some ''q'', documents = Some (DocList [doc_a]), generation = Some ''''\<rparr>)],
      nxt = END\<rparr>"

definition direct_run :: "string list agent_run" where
  "direct_run =
     \<lparr>a_state = \<lparr>messages =
        [\<lparr>role = Human, content = ''q'', tool_calls = []\<rparr>,
         \<lparr>role = AI, content = ''hello'', tool_calls = []\<rparr>]\<rparr>,
      a_world = [],
      a_trace = [(Agent, [Msg \<lparr>role = AI, content = ''hello'', tool_calls = []\<rparr>])],
      a_nxt = AEND\<rparr>"



section \<open>Properties of the grading loop\<close>

lemma length_verdicts: "length (verdicts g q ds w) = length ds"
  by (induction ds arbitrary: w) (auto split: prod.splits)

lemma grade_loop_verdicts:
  "fst (grade_loop g q ds acc w) = acc @ relevant_docs ds (verdicts g q ds w)"
  by (induction ds arbitrary: acc w) (auto simp: relevant_docs_def split: prod.splits)

lemma grade_loop_logged:
  "snd (snd (grade_loop (logged g) q ds acc (w, log))) = log @ map (\<lambda>d. (q, page_content d)) ds"
  by (induction ds arbitrary: acc w log) (auto simp: logged_def split: prod.splits)

lemma subseq_relevant_docs: "subseq (relevant_docs ds vs) ds"
  unfolding relevant_docs_def
proof (induction ds arbitrary: vs)
  case Nil
  then show ?case by simp
next
  case (Cons d ds)
  show ?case by (cases vs) (auto intro: Cons.IH subseq_Cons')
qed

lemma relevant_docs_none: "\<forall>v\<in>set vs. v \<noteq> ''yes'' \<Longrightarrow> relevant_docs ds vs = []"
  by (auto simp: relevant_docs_def filter_empty_conv dest: set_zip_rightD)

section \<open>Router-first decisions\<close>

text \<open>
  C3. After a generate step (question, documents and generation present), the edge leaving
  \<open>generate\<close> goes back to \<open>generate\<close> exactly when the hallucination grader's score is not
  \<open>yes\<close>, to \<open>transform_query\<close> exactly when it is \<open>yes\<close> and the answer grader's score is
  not \<open>yes\<close>, and to \<open>END\<close> exactly when both scores are \<open>yes\<close>.
\<close>

theorem generate_decision:
  assumes "question s = Some q" and "documents s = Some D" and "generation s = Some g"
    and "hallucination_grader c D g w = (v1, w1)" and "answer_grader c q g w1 = (v2, w2)"
  shows "((\<exists>w'. next_target Generate c s w = Inr (Node Generate, w')) \<longleftrightarrow> v1 \<noteq> ''yes'')
       \<and> ((\<exists>w'. next_target Generate c s w = Inr (Node Transform_query, w'))
            \<longleftrightarrow> v1 = ''yes'' \<and> v2 \<noteq> ''yes'')
       \<and> ((\<exists>w'. next_target Generate c s w = Inr (END, w')) \<longleftrightarrow> v1 = ''yes'' \<and> v2 = ''yes'')"
  using assms
  by (simp add: grade_generation_v_documents_and_question_def dispatch_def generate_map_def)

theorem generate_decision_witness:
  "question stub_state = Some ''q'' \<and> documents stub_state = Some (DocList [doc_a, doc_b])
     \<and> generation stub_state = Some ''g''
     \<and> hallucination_grader stub (DocList [doc_a, doc_b]) ''g'' 0 = (''yes'', 1)
     \<and> answer_grader stub ''q'' ''g'' 1 = (''yes'', 2)
     \<and> (\<exists>w'. next_target Generate stub stub_state 0 = Inr (END, w'))"
  using generate_decision
    [of stub_state "''q''" "DocList [doc_a, doc_b]" "''g''" stub 0 "''yes''" 1 "''yes''" 2]
  by (simp add: stub_def stub_state_def)

lemma decide_to_generate_cases:
  "decide_to_generate s =
     (case documents s of
        None \<Rightarrow> Inr ''transform_query''
      | Some (DocList ds) \<Rightarrow> if ds = [] then Inr ''transform_query'' else Inr ''generate''
      | Some (DocSingle d) \<Rightarrow> Inl TypeError)"
  by (simp add: decide_to_generate_def split: option.splits docs_value.splits)

text \<open>
  C2. \<open>decide_to_generate\<close> returns \<open>transform_query\<close> exactly when the documents
  that survived grading are empty (or absent) and \<open>generate\<close> exactly when they are a
  non-empty list, and the edge leaving \<open>grade_documents\<close> follows that label; on a single
  document in place of a list, which the grading step never stores, it raises. When the
  grader never answers \<open>yes\<close> on the retrieved documents, the steps after \<open>retrieve\<close> are \<open>grade_documents\<close>,
  \<open>transform_query\<close> and \<open>retrieve\<close>, and this second retrieval is issued with the
  rewritten question.
\<close>

theorem grade_documents_decision:
  "(decide_to_generate s = Inr ''transform_query''
      \<longleftrightarrow> documents s = None \<or> documents s = Some (DocList []))
   \<and> (decide_to_generate s = Inr ''generate''
        \<longleftrightarrow> (\<exists>kept. documents s = Some (DocList kept) \<and> kept \<noteq> []))
   \<and> (decide_to_generate s = Inl TypeError \<longleftrightarrow> (\<exists>d. documents s = Some (DocSingle d)))
   \<and> next_target Grade_documents c s w =
        (case documents s of
           None \<Rightarrow> Inr (Node Transform_query, w)
         | Some (DocList kept) \<Rightarrow>
             Inr (if kept = [] then Node Transform_query else Node Generate, w)
         | Some (DocSingle d) \<Rightarrow> Inl TypeError)
   \<and> (nxt r = Node Retrieve \<and> question (state r) = Some q \<and> retriever c q (world r) = (ds, wa)
        \<and> (\<forall>v\<in>set (verdicts (retrieval_grader c) q ds wa). v \<noteq> ''yes'')
      \<longrightarrow> (let w2 = snd (grade_loop (retrieval_grader c) q ds [] wa);
               q' = fst (question_rewriter c q w2);
               w3 = snd (question_rewriter c q w2);
               ds' = fst (retriever c q' w3);
               w4 = snd (retriever c q' w3)
           in steps 4 c r =
                Inr \<lparr>state = \<lparr>question = Some q', documents = Some (DocList ds'),
                               generation = generation (state r)\<rparr>,
                     world = w4,
                     trace = trace r @
                       [(Retrieve, \<lparr>question = Some q, documents = Some (DocList ds), generation = None\<rparr>),
                        (Grade_documents, \<lparr>question = Some q, documents = Some (DocList []), generation = None\<rparr>),
                        (Transform_query, \<lparr>question = Some q', documents = Some (DocList []), generation = None\<rparr>),
                        (Retrieve, \<lparr>question = Some q', documents = Some (DocList ds'), generation = None\<rparr>)],
                     nxt = Node Grade_documents\<rparr>))"
proof (intro conjI impI)
  show "decide_to_generate s = Inr ''transform_query''
      \<longleftrightarrow> documents s = None \<or> documents s = Some (DocList [])"
    by (simp add: decide_to_generate_cases split: option.splits docs_value.splits)
  show "decide_to_generate s = Inr ''generate''
        \<longleftrightarrow> (\<exists>kept. documents s = Some (DocList kept) \<and> kept \<noteq> [])"
    by (simp add: decide_to_generate_cases split: option.splits docs_value.splits)
  show "decide_to_generate s = Inl TypeError \<longleftrightarrow> (\<exists>d. documents s = Some (DocSingle d))"
    by (simp add: decide_to_generate_cases split: option.splits docs_value.splits)
  show "next_target Grade_documents c s w =
        (case documents s of
           None \<Rightarrow> Inr (Node Transform_query, w)
         | Some (DocList kept) \<Rightarrow>
             Inr (if kept = [] then Node Transform_query else Node Generate, w)
         | Some (DocSingle d) \<Rightarrow> Inl TypeError)"
    by (simp add: decide_to_generate_cases dispatch_def grade_documents_map_def
        split: option.splits docs_value.splits)
next
  assume h: "nxt r = Node Retrieve \<and> question (state r) = Some q \<and> retriever c q (world r) = (ds, wa)
        \<and> (\<forall>v\<in>set (verdicts (retrieval_grader c) q ds wa). v \<noteq> ''yes'')"
  then have none: "fst (grade_loop (retrieval_grader c) q ds [] wa) = []"
    by (simp add: grade_loop_verdicts relevant_docs_none)
  define w2 where "w2 = snd (grade_loop (retrieval_grader c) q ds [] wa)"
  have gl: "grade_loop (retrieval_grader c) q ds [] wa = ([], w2)"
    using none by (simp add: w2_def prod_eq_iff)
  define q' where "q' = fst (question_rewriter c q w2)"
  define w3 where "w3 = snd (question_rewriter c q w2)"
  have rw: "question_rewriter c q w2 = (q', w3)" by (simp add: q'_def w3_def)
  define ds' where "ds' = fst (retriever c q' w3)"
  define w4 where "w4 = snd (retriever c q' w3)"
  have rt: "retriever c q' w3 = (ds', w4)" by (simp add: ds'_def w4_def)
  define r1 where "r1 = \<lparr>state = \<lparr>question = Some q, documents = Some (DocList ds), generation = generation (state r)\<rparr>,
     world = wa, trace = trace r @ [(Retrieve, \<lparr>question = Some q, documents = Some (DocList ds), generation = None\<rparr>)],
     nxt = Node Grade_documents\<rparr>"
  have s1: "exec_node c Retrieve r = Inr r1"
    using h by (simp add: exec_node_def retrieve_def merge_def r1_def)
  define r2 where "r2 = \<lparr>state = \<lparr>question = Some q, documents = Some (DocList []), generation = generation (state r)\<rparr>,
     world = w2, trace = trace r1 @ [(Grade_documents, \<lparr>question = Some q, documents = Some (DocList []), generation = None\<rparr>)],
     nxt = Node Transform_query\<rparr>"
  have s2: "exec_node c Grade_documents r1 = Inr r2"
    using gl by (simp add: exec_node_def grade_documents_def merge_def r1_def r2_def
        decide_to_generate_cases dispatch_def grade_documents_map_def)
  define r3 where "r3 = \<lparr>state = \<lparr>question = Some q', documents = Some (DocList []), generation = generation (state r)\<rparr>,
     world = w3, trace = trace r2 @ [(Transform_query, \<lparr>question = Some q', documents = Some (DocList []), generation = None\<rparr>)],
     nxt = Node Retrieve\<rparr>"
  have s3: "exec_node c Transform_query r2 = Inr r3"
    using rw by (simp add: exec_node_def transform_query_def merge_def r2_def r3_def)
  define r4 where "r4 = \<lparr>state = \<lparr>question = Some q', documents = Some (DocList ds'), generation = generation (state r)\<rparr>,
     world = w4, trace = trace r3 @ [(Retrieve, \<lparr>question = Some q', documents = Some (DocList ds'), generation = None\<rparr>)],
     nxt = Node Grade_documents\<rparr>"
  have s4: "exec_node c Retrieve r3 = Inr r4"
    using rt by (simp add: exec_node_def retrieve_def merge_def r3_def r4_def)
  have "steps 4 c r = Inr r4"
    using h s1 s2 s3 s4 by (simp add: eval_nat_numeral r1_def r2_def r3_def)
  then show "(let w2 = snd (grade_loop (retrieval_grader c) q ds [] wa);
               q' = fst (question_rewriter c q w2);
               w3 = snd (question_rewriter c q w2);
               ds' = fst (retriever c q' w3);
               w4 = snd (retriever c q' w3)
           in steps 4 c r =
                Inr \<lparr>state = \<lparr>question = Some q', documents = Some (DocList ds'),
                               generation = generation (state r)\<rparr>,
                     world = w4,
                     trace = trace r @
                       [(Retrieve, \<lparr>question = Some q, documents = Some (DocList ds), generation = None\<rparr>),
                        (Grade_documents, \<lparr>question = Some q, documents = Some (DocList []), generation = None\<rparr>),
                        (Transform_query, \<lparr>question = Some q', documents = Some (DocList []), generation = None\<rparr>),
                        (Retrieve, \<lparr>question = Some q', documents = Some (DocList ds'), generation = None\<rparr>)],
                     nxt = Node Grade_documents\<rparr>)"
    by (simp add: Let_def r4_def r3_def r2_def r1_def w2_def q'_def w3_def ds'_def w4_def)
qed


lemma start_stub_irrelevant: "start stub_irrelevant ''q'' 0 = Inr retrieve_run"
  by (simp add: start_def route_question_def stub_irrelevant_def stub_def dispatch_def entry_map_def retrieve_run_def)

theorem grade_documents_decision_witness:
  "start stub_irrelevant ''q'' 0 = Inr retrieve_run
   \<and> steps 4 stub_irrelevant retrieve_run =
       Inr \<lparr>state = \<lparr>question = Some ''q?'', documents = Some (DocList [doc_a, doc_b]), generation = None\<rparr>,
            world = 6,
            trace =
              [(Retrieve, \<lparr>question = Some ''q'', documents = Some (DocList [doc_a, doc_b]), generation = None\<rparr>),
               (Grade_documents, \<lparr>question = Some ''q'', documents = Some (DocList []), generation = None\<rparr>),
               (Transform_query, \<lparr>question = Some ''q?'', documents = Some (DocList []), generation = None\<rparr>),
               (Retrieve, \<lparr>question = Some ''q?'', documents = Some (DocList [doc_a, doc_b]), generation = None\<rparr>)],
            nxt = Node Grade_documents\<rparr>"
  using grade_documents_decision
    [where r = retrieve_run and q = "''q''" and c = stub_irrelevant and ds = "[doc_a, doc_b]" and wa = 2]
  by (simp add: start_stub_irrelevant) (simp add: stub_irrelevant_def stub_def retrieve_run_def Let_def)

text \<open>
  C4. When the hallucination grader's score on a generation is not \<open>yes\<close>, the step after
  \<open>generate\<close> is \<open>generate\<close> again: the documents field is unchanged, no other node
  runs in between, and the second execution calls the generator with the same documents.
\<close>

theorem regenerate_same_documents:
  assumes "nxt r = Node Generate" and "question (state r) = Some q" and "documents (state r) = Some D"
    and "rag_chain c D q (world r) = (g, wa)" and "hallucination_grader c D g wa = (v, wb)"
    and "v \<noteq> ''yes''" and "rag_chain c D q wb = (g2, wc)"
  shows "let r1 = \<lparr>state = \<lparr>question = Some q, documents = Some D, generation = Some g\<rparr>,
                   world = wb,
                   trace = trace r @
                     [(Generate, \<lparr>question = Some q, documents = Some D, generation = Some g\<rparr>)],
                   nxt = Node Generate\<rparr>
         in steps 1 c r = Inr r1
          \<and> documents (state r1) = documents (state r)
          \<and> generate c (state r1) (world r1) =
              Inr (\<lparr>question = Some q, documents = Some D, generation = Some g2\<rparr>, wc)"
  using assms
  by (simp add: exec_node_def generate_def merge_def Let_def
      grade_generation_v_documents_and_question_def dispatch_def generate_map_def)

lemma steps_to_generate_run: "steps 2 stub_ungrounded retrieve_run = Inr generate_run"
  by (simp add: eval_nat_numeral exec_node_def retrieve_def grade_documents_def merge_def
      stub_ungrounded_def stub_def retrieve_run_def generate_run_def doc_a_def doc_b_def
      decide_to_generate_def dispatch_def grade_documents_map_def)

theorem regenerate_same_documents_witness:
  "steps 2 stub_ungrounded retrieve_run = Inr generate_run
   \<and> steps 1 stub_ungrounded generate_run =
       Inr \<lparr>state = \<lparr>question = Some ''q'', documents = Some (DocList [doc_a]), generation = Some ''answer''\<rparr>,
            world = 6,
            trace = trace generate_run @
              [(Generate, \<lparr>question = Some ''q'', documents = Some (DocList [doc_a]), generation = Some ''answer''\<rparr>)],
            nxt = Node Generate\<rparr>
   \<and> generate stub_ungrounded
        \<lparr>question = Some ''q'', documents = Some (DocList [doc_a]), generation = Some ''answer''\<rparr> 6 =
       Inr (\<lparr>question = Some ''q'', documents = Some (DocList [doc_a]), generation = Some ''answer''\<rparr>, 7)"
  using regenerate_same_documents
    [where r = generate_run and q = "''q''" and D = "DocList [doc_a]" and c = stub_ungrounded
       and g = "''answer''" and wa = 5 and v = "''no''" and wb = 6 and ?g2.0 = "''answer''" and wc = 7]
  by (simp add: steps_to_generate_run) (simp add: stub_ungrounded_def stub_def generate_run_def Let_def)

lemma grade_loop_with_log:
  "grade_loop (logged g) q ds acc (w, log) =
     (fst (grade_loop g q ds acc w),
      (snd (grade_loop g q ds acc w), log @ map (\<lambda>d. (q, page_content d)) ds))"
  by (induction ds arbitrary: acc w log) (auto simp: logged_def split: prod.splits)

text \<open>
  C6. On a state holding a question and a list of documents, \<open>grade_documents\<close> calls the
  grader once per document, in order (the logged calls are exactly the documents' contents),
  and returns a patch whose documents are the input documents graded \<open>yes\<close>, unmodified
  and in their original order; merging the patch replaces the documents field by that list.
\<close>

theorem grade_documents_filters:
  assumes "question s = Some q" and "documents s = Some (DocList ds)"
  shows "let vs = verdicts (retrieval_grader c) q ds w;
             kept = relevant_docs ds vs;
             patch = \<lparr>question = Some q, documents = Some (DocList kept), generation = None\<rparr>
         in (\<exists>w'. grade_documents c s w = Inr (patch, w')
               \<and> grade_documents (with_log c) s (w, log) =
                   Inr (patch, (w', log @ map (\<lambda>d. (q, page_content d)) ds)))
          \<and> length vs = length ds
          \<and> subseq kept ds
          \<and> documents (merge s patch) = Some (DocList kept)"
proof -
  have "\<exists>w'. grade_documents c s w =
      Inr (\<lparr>question = Some q,
            documents = Some (DocList (relevant_docs ds (verdicts (retrieval_grader c) q ds w))),
            generation = None\<rparr>, w')
     \<and> grade_documents (with_log c) s (w, log) =
      Inr (\<lparr>question = Some q,
            documents = Some (DocList (relevant_docs ds (verdicts (retrieval_grader c) q ds w))),
            generation = None\<rparr>, (w', log @ map (\<lambda>d. (q, page_content d)) ds))"
    using assms grade_loop_verdicts [of "retrieval_grader c" q ds "[]" w]
    by (cases "grade_loop (retrieval_grader c) q ds [] w")
      (simp add: grade_documents_def grade_loop_with_log with_log_def)
  then show ?thesis
    by (simp add: Let_def length_verdicts subseq_relevant_docs merge_def)
qed

theorem grade_documents_filters_witness:
  "grade_documents stub stub_state 0 =
     Inr (\<lparr>question = Some ''q'', documents = Some (DocList [doc_a]), generation = None\<rparr>, 2)
   \<and> verdicts (retrieval_grader stub) ''q'' [doc_a, doc_b] 0 = [''yes'', ''no'']
   \<and> grade_documents (with_log stub) stub_state (0, []) =
     Inr (\<lparr>question = Some ''q'', documents = Some (DocList [doc_a]), generation = None\<rparr>,
          (2, [(''q'', ''memory''), (''q'', ''weather'')]))"
proof -
  note inst = grade_documents_filters
    [where s = stub_state and q = "''q''" and ds = "[doc_a, doc_b]" and c = stub and w = 0
       and log = "[]"]
  have e1: "grade_documents stub stub_state 0 =
     Inr (\<lparr>question = Some ''q'', documents = Some (DocList [doc_a]), generation = None\<rparr>, 2)"
    by (simp add: grade_documents_def stub_def stub_state_def doc_a_def doc_b_def)
  have e2: "verdicts (retrieval_grader stub) ''q'' [doc_a, doc_b] 0 = [''yes'', ''no'']"
    by (simp add: stub_def doc_a_def doc_b_def)
  have e3: "grade_documents (with_log stub) stub_state (0, []) =
     Inr (\<lparr>question = Some ''q'', documents = Some (DocList [doc_a]), generation = None\<rparr>,
          (2, [(''q'', ''memory''), (''q'', ''weather'')]))"
    using inst e1 e2
    by (simp add: Let_def stub_state_def relevant_docs_def doc_a_def doc_b_def)
  show ?thesis
    using e1 e2 e3 by simp
qed

section \<open>Faults, merge and web search\<close>

lemma stream_fault:
  "nxt r = Node n \<Longrightarrow> exec_node c n r = Inl e \<Longrightarrow> stream (Suc k) c r = Inl e"
  by simp

lemma grade_generation_label:
  "grade_generation_v_documents_and_question c s w = Inr (l, w') \<Longrightarrow> l \<in> dom generate_map"
  by (auto simp: grade_generation_v_documents_and_question_def generate_map_def
      split: option.splits prod.splits if_splits)

text \<open>
  C8. A datasource that is neither \<open>web_search\<close> nor \<open>vectorstore\<close> makes
  \<open>route_question\<close> return no label; the run then ends at once with a configuration fault,
  before any step executes. A label without an entry in a mapping is never given an edge, a
  fault of a step ends the stream without a retry, and the two other routers only produce
  labels of their mappings.
\<close>

theorem route_outside_declared_set:
  "(question_router c q w = (datasource, w') \<and> datasource \<noteq> ''web_search''
      \<and> datasource \<noteq> ''vectorstore''
     \<longrightarrow> route_question c \<lparr>question = Some q, documents = None, generation = None\<rparr> w = Inr (None, w')
       \<and> start c q w = Inl ConfigurationFault
       \<and> run c q w = Inl ConfigurationFault)
   \<and> dispatch path_map None = Inl ConfigurationFault
   \<and> (path_map l = None \<longrightarrow> dispatch path_map (Some l) = Inl ConfigurationFault)
   \<and> (nxt r = Node n \<and> exec_node c n r = Inl e \<longrightarrow> stream (Suc k) c r = Inl e)
   \<and> (decide_to_generate s = Inr label \<longrightarrow> label \<in> dom grade_documents_map)
   \<and> (grade_generation_v_documents_and_question c s w = Inr (l', w'') \<longrightarrow> l' \<in> dom generate_map)"
  by (auto simp: route_question_def start_def run_def dispatch_def
      decide_to_generate_cases grade_documents_map_def
      split: option.splits docs_value.splits if_splits dest: grade_generation_label)

theorem route_outside_declared_set_witness:
  "question_router stub_unrouted ''q'' 0 = (''database'', 1)
   \<and> start stub_unrouted ''q'' 0 = Inl ConfigurationFault
   \<and> run stub_unrouted ''q'' 0 = Inl ConfigurationFault
   \<and> entry_map ''database'' = None
   \<and> dispatch entry_map (Some ''database'') = Inl ConfigurationFault"
  using route_outside_declared_set
    [where c = stub_unrouted and q = "''q''" and w = 0 and datasource = "''database''" and w' = 1
       and path_map = entry_map and l = "''database''"]
  by (simp add: stub_unrouted_def stub_def entry_map_def)

text \<open>
  C5. Merging a patch overwrites exactly the keys the patch names and keeps the others; a
  patch naming only \<open>documents\<close> changes only \<open>documents\<close>. For the agent state the
  patch's messages are appended to the transcript.
\<close>

theorem merge_law:
  "merge \<lparr>question = Q, documents = D, generation = G\<rparr>
         \<lparr>question = None, documents = Some D', generation = None\<rparr>
     = \<lparr>question = Q, documents = Some D', generation = G\<rparr>
   \<and> question (merge s p) = (case question p of None \<Rightarrow> question s | Some v \<Rightarrow> Some v)
   \<and> documents (merge s p) = (case documents p of None \<Rightarrow> documents s | Some v \<Rightarrow> Some v)
   \<and> generation (merge s p) = (case generation p of None \<Rightarrow> generation s | Some v \<Rightarrow> Some v)
   \<and> messages (merge_agent a ms) = messages a @ map coerce ms"
  by (simp add: merge_def merge_agent_def add_messages_def)
















section \<open>Agent-first topology: the question\<close>

text \<open>
  C10. The grading decision, \<open>rewrite\<close> and \<open>generate\<close> read the question from the first
  message of the transcript, and merging a patch keeps that first message. So on a transcript
  to which a rewritten question and later messages were appended, grading and generation
  behave as on the transcript of the original question and the newest message alone.
\<close>

theorem question_from_first_message:
  "(messages s = m0 # ms \<longrightarrow>
      grade_documents_agent c s w =
        (case grader_chain c (content m0) (content (last (m0 # ms))) w of
           (score, w') \<Rightarrow> Inr (if score = ''yes'' then ''generate'' else ''rewrite'', w'))
      \<and> rewrite c s w =
        (case rewrite_model c
                [\<lparr>role = Human,
                  content = rewrite_prompt_head c @ content m0 @ rewrite_prompt_tail c,
                  tool_calls = []\<rparr>] w of
           (response, w') \<Rightarrow> Inr ([Msg response], w'))
      \<and> generate_agent c s w =
        (case generate_chain c (content (last (m0 # ms))) (content m0) w of
           (response, w') \<Rightarrow> Inr ([Text response], w'))
      \<and> hd (messages (merge_agent s patch)) = m0)
   \<and> grade_documents_agent c \<lparr>messages = m0 # ms @ [rewritten] @ later @ [docs]\<rparr> w =
       grade_documents_agent c \<lparr>messages = [m0, docs]\<rparr> w
   \<and> generate_agent c \<lparr>messages = m0 # ms @ [rewritten] @ later @ [docs]\<rparr> w =
       generate_agent c \<lparr>messages = [m0, docs]\<rparr> w
   \<and> rewrite c \<lparr>messages = m0 # ms @ [rewritten] @ later\<rparr> w = rewrite c \<lparr>messages = [m0]\<rparr> w"
  by (auto simp: grade_documents_agent_def rewrite_def generate_agent_def merge_agent_def
      add_messages_def Let_def split: prod.splits)

lemma agent_stub_run: "agent_steps 6 agent_stub (agent_start ''q'' []) = Inr agent_final"
  by (simp add: eval_nat_numeral agent_start_def agent_exec_node_def agent_def retrieve_agent_def
      rewrite_def generate_agent_def grade_documents_agent_def merge_agent_def add_messages_def
      tools_condition_def dispatch_agent_def agent_map_def node_named_def agent_stub_def
      agent_final_def tool_message_def Let_def)

theorem question_from_first_message_witness:
  "agent_steps 6 agent_stub (agent_start ''q'' []) = Inr agent_final
   \<and> a_world agent_final = [''q'', ''q'', ''q'']
   \<and> grade_documents_agent agent_stub
        \<lparr>messages = [\<lparr>role = Human, content = ''q'', tool_calls = []\<rparr>,
                      \<lparr>role = AI, content = ''better q'', tool_calls = []\<rparr>, tool_message]\<rparr> [''q''] =
      Inr (''generate'', [''q'', ''q''])"
  using question_from_first_message
    [where s = "\<lparr>messages = [\<lparr>role = Human, content = ''q'', tool_calls = []\<rparr>,
                      \<lparr>role = AI, content = ''better q'', tool_calls = []\<rparr>, tool_message]\<rparr>"
       and ?m0.0 = "\<lparr>role = Human, content = ''q'', tool_calls = []\<rparr>"
       and ms = "[\<lparr>role = AI, content = ''better q'', tool_calls = []\<rparr>, tool_message]"
       and c = agent_stub and w = "[''q'']"]
  by (simp add: agent_stub_run) (simp add: agent_final_def agent_stub_def tool_message_def)

section \<open>Whole runs\<close>

lemma stream_END: "nxt r = END \<Longrightarrow> stream k c r = Inr r"
  by (cases k) simp_all


lemma stream_of_steps:
  "steps k c r = Inr r' \<Longrightarrow> nxt r' = END \<Longrightarrow> stream (k + j) c r = Inr r'"
proof (induction k arbitrary: r)
  case 0
  then show ?case by (simp add: stream_END)
next
  case (Suc k)
  show ?case
  proof (cases "nxt r")
    case END
    with Suc.prems show ?thesis by simp
  next
    case (Node n)
    with Suc.prems obtain r1 where r1: "exec_node c n r = Inr r1" "steps k c r1 = Inr r'"
      by (auto split: sum.splits)
    from Suc.IH [OF r1(2) Suc.prems(2)] Node r1(1) show ?thesis by simp
  qed
qed








lemma agent_stream_END: "a_nxt r = AEND \<Longrightarrow> agent_stream k c r = Inr r"
  by (cases k) simp_all


lemma agent_stream_of_steps:
  "agent_steps k c r = Inr r' \<Longrightarrow> a_nxt r' = AEND \<Longrightarrow> agent_stream (k + j) c r = Inr r'"
proof (induction k arbitrary: r)
  case 0
  then show ?case by (simp add: agent_stream_END)
next
  case (Suc k)
  show ?case
  proof (cases "a_nxt r")
    case AEND
    with Suc.prems show ?thesis by simp
  next
    case (ANode n)
    with Suc.prems obtain r1 where r1: "agent_exec_node c n r = Inr r1" "agent_steps k c r1 = Inr r'"
      by (auto split: sum.splits)
    from Suc.IH [OF r1(2) Suc.prems(2)] ANode r1(1) show ?thesis by simp
  qed
qed






lemma exec_node_END:
  assumes "exec_node c n r = Inr r'" and "nxt r' = END"
  shows "n = Generate \<and> (\<exists>p w' g. generate c (state r) (world r) = Inr (p, w')
           \<and> trace r' = trace r @ [(Generate, p)] \<and> generation p = Some g
           \<and> generation (state r') = Some g)"
proof (cases n)
  case Generate
  with assms show ?thesis
    by (auto simp: exec_node_def Let_def generate_def merge_def
        split: sum.splits prod.splits option.splits)
next
  case Grade_documents
  with assms show ?thesis
    by (auto simp: exec_node_def Let_def dispatch_def grade_documents_map_def
        decide_to_generate_cases
        split: sum.splits prod.splits option.splits docs_value.splits if_splits)
qed (use assms in \<open>auto simp: exec_node_def Let_def split: sum.splits prod.splits\<close>)

lemma final_state_snoc: "trace r = t @ [e] \<Longrightarrow> final_state r = Some (snd e)"
  by (cases t) (simp_all add: final_state_def)

lemma exec_node_accepted:
  assumes "exec_node c n r = Inr r'" and "nxt r' = END"
  shows "accepted c r'"
proof -
  from exec_node_END [OF assms] obtain p w' g where
    "generate c (state r) (world r) = Inr (p, w')" "trace r' = trace r @ [(Generate, p)]"
    "generation p = Some g" "generation (state r') = Some g" by blast
  then show ?thesis
    unfolding accepted_def using final_state_snoc [of r' "trace r" "(Generate, p)"] by auto
qed

lemma stream_accepted:
  "stream k c r = Inr r' \<Longrightarrow> nxt r' = END \<and> (nxt r \<noteq> END \<or> accepted c r \<longrightarrow> accepted c r')"
proof (induction k arbitrary: r)
  case 0
  then show ?case by (cases "nxt r") simp_all
next
  case (Suc k)
  show ?case
  proof (cases "nxt r")
    case END
    with Suc.prems show ?thesis by simp
  next
    case (Node n)
    with Suc.prems obtain r1 where r1: "exec_node c n r = Inr r1" "stream k c r1 = Inr r'"
      by (auto split: sum.splits)
    have "nxt r1 \<noteq> END \<or> accepted c r1"
      using exec_node_accepted [OF r1(1)] by blast
    with Suc.IH [OF r1(2)] show ?thesis by blast
  qed
qed

lemma start_not_END: "start c q w = Inr r0 \<Longrightarrow> nxt r0 \<noteq> END"
  by (auto simp: start_def Let_def dispatch_def entry_map_def
      split: sum.splits prod.splits option.splits if_splits)

lemma generate_rag_chain:
  assumes "generate c s wa = Inr (p, wb)"
  shows "\<exists>D q. generation p = Some (fst (rag_chain c D q wa))"
proof -
  from assms obtain q D where "question s = Some q" "documents s = Some D"
    by (auto simp: generate_def split: option.splits)
  with assms have "generation p = Some (fst (rag_chain c D q wa))"
    by (auto simp: generate_def split: prod.splits)
  then show ?thesis by blast
qed

lemma accepted_rag_chain:
  assumes "accepted c r"
  shows "\<exists>D q wa. generation (state r) = Some (fst (rag_chain c D q wa))"
proof -
  from assms obtain p s wa wb g where
    "generate c s wa = Inr (p, wb)" "generation p = Some g" "generation (state r) = Some g"
    unfolding accepted_def by blast
  with generate_rag_chain [of c s wa p wb] show ?thesis by auto
qed

lemma generate_agent_patch:
  "generate_agent c s w = Inr (patch, w') \<Longrightarrow> \<exists>g. patch = [Text g]"
  by (auto simp: generate_agent_def Let_def split: list.splits prod.splits)

lemma agent_exec_node_inv:
  assumes "agent_exec_node c n r = Inr r'" and "no_generate (a_trace r)"
  shows "agent_inv c r'"
proof (cases n)
  case Generate_answer
  from assms(1) Generate_answer obtain patch w' where
    g: "generate_agent c (a_state r) (a_world r) = Inr (patch, w')"
    and r': "a_trace r' = a_trace r @ [(Generate_answer, patch)]" "a_nxt r' = AEND"
    by (auto simp: agent_exec_node_def Let_def split: sum.splits prod.splits)
  from generate_agent_patch [OF g] obtain g' where "patch = [Text g']" by blast
  with g r' assms(2) have "agent_accepted c r'"
    unfolding agent_accepted_def by blast
  with r' show ?thesis by (simp add: agent_inv_def)
qed (use assms in \<open>auto simp: agent_exec_node_def agent_inv_def no_generate_def Let_def
        split: sum.splits prod.splits\<close>)

lemma agent_stream_inv:
  "agent_stream k c r = Inr r' \<Longrightarrow> a_nxt r' = AEND \<and> (agent_inv c r \<longrightarrow> agent_inv c r')"
proof (induction k arbitrary: r)
  case 0
  then show ?case by (cases "a_nxt r") simp_all
next
  case (Suc k)
  show ?case
  proof (cases "a_nxt r")
    case AEND
    with Suc.prems show ?thesis by simp
  next
    case (ANode n)
    with Suc.prems obtain r1 where
      r1: "agent_exec_node c n r = Inr r1" "agent_stream k c r1 = Inr r'"
      by (auto split: sum.splits)
    have "agent_inv c r \<longrightarrow> agent_inv c r1"
      using agent_exec_node_inv [OF r1(1)] ANode by (auto simp: agent_inv_def)
    with Suc.IH [OF r1(2)] show ?thesis by blast
  qed
qed

lemma final_answer_no_generate: "no_generate t \<Longrightarrow> final_answer acc t = Inr acc"
  by (induction t arbitrary: acc) (auto simp: no_generate_def)

lemma final_answer_snoc:
  "no_generate t \<Longrightarrow> final_answer acc (t @ [(Generate_answer, [Text g])]) = Inr (Some (Text g))"
  by (induction t arbitrary: acc) (auto simp: no_generate_def)

lemma agent_start_inv: "agent_inv c (agent_start q w)"
  by (simp add: agent_inv_def no_generate_def agent_start_def)

text \<open>
  C7 (as amended). A router-first run that reaches \<open>END\<close> executed \<open>generate\<close> last; the
  state \<open>run\<close> returns is that step's patch, and its generation is present and is the
  string the generator returned in that step. An agent-first run that reaches \<open>END\<close> either
  executed no \<open>generate\<close> step, and \<open>query\<close> returns the fallback text, or executed
  \<open>generate\<close> once, as its last step, and \<open>query\<close> returns that step's answer when it is
  not empty and the fallback text otherwise.
\<close>

theorem accepted_run_generation:
  "(start c q w = Inr r0 \<and> stream recursion_limit c r0 = Inr r \<longrightarrow>
      nxt r = END
      \<and> run c q w = Inr (final_state r)
      \<and> (\<exists>t p s wa wb g. trace r = t @ [(Generate, p)] \<and> final_state r = Some p
            \<and> generate c s wa = Inr (p, wb) \<and> generation p = Some g
            \<and> generation (state r) = Some g)
      \<and> (\<exists>D q' wa. generation (state r) = Some (fst (rag_chain c D q' wa))))
   \<and> (agent_stream recursion_limit ca (agent_start qa wa) = Inr ra \<longrightarrow>
        a_nxt ra = AEND
        \<and> ((no_generate (a_trace ra) \<and> query ca qa wa = Inr (Text no_answer))
           \<or> (\<exists>t g s wx wy. a_trace ra = t @ [(Generate_answer, [Text g])] \<and> no_generate t
                 \<and> generate_agent ca s wx = Inr ([Text g], wy)
                 \<and> query ca qa wa = Inr (Text (if g \<noteq> [] then g else no_answer)))))"
proof (intro conjI impI)
  assume h: "start c q w = Inr r0 \<and> stream recursion_limit c r0 = Inr r"
  from stream_accepted [of recursion_limit c r0 r] h start_not_END [of c q w r0]
  have e: "nxt r = END" and a: "accepted c r" by auto
  show "nxt r = END" by (rule e)
  show "run c q w = Inr (final_state r)" using h by (simp add: run_def)
  show "\<exists>t p s wa wb g. trace r = t @ [(Generate, p)] \<and> final_state r = Some p
            \<and> generate c s wa = Inr (p, wb) \<and> generation p = Some g
            \<and> generation (state r) = Some g"
    using a unfolding accepted_def .
  show "\<exists>D q' wa. generation (state r) = Some (fst (rag_chain c D q' wa))"
    by (rule accepted_rag_chain [OF a])
next
  assume h: "agent_stream recursion_limit ca (agent_start qa wa) = Inr ra"
  from agent_stream_inv [OF h] agent_start_inv [of ca qa wa]
  have e: "a_nxt ra = AEND" and i: "agent_inv ca ra" by auto
  show "a_nxt ra = AEND" by (rule e)
  from i consider (none) "no_generate (a_trace ra)" | (gen) "agent_accepted ca ra"
    unfolding agent_inv_def by blast
  then show "(no_generate (a_trace ra) \<and> query ca qa wa = Inr (Text no_answer))
           \<or> (\<exists>t g s wx wy. a_trace ra = t @ [(Generate_answer, [Text g])] \<and> no_generate t
                 \<and> generate_agent ca s wx = Inr ([Text g], wy)
                 \<and> query ca qa wa = Inr (Text (if g \<noteq> [] then g else no_answer)))"
  proof cases
    case none
    with h show ?thesis by (simp add: query_def final_answer_no_generate)
  next
    case gen
    then obtain t g s wx wy where t: "a_trace ra = t @ [(Generate_answer, [Text g])]"
      "no_generate t" "generate_agent ca s wx = Inr ([Text g], wy)"
      unfolding agent_accepted_def by blast
    with h have "query ca qa wa = Inr (Text (if g \<noteq> [] then g else no_answer))"
      by (simp add: query_def final_answer_snoc)
    with t show ?thesis by blast
  qed
qed

lemma start_stub: "start stub ''q'' 0 = Inr retrieve_run"
  by (simp add: start_def route_question_def stub_def dispatch_def entry_map_def retrieve_run_def)

lemma start_stub_silent: "start stub_silent ''q'' 0 = Inr retrieve_run"
  by (simp add: start_def route_question_def stub_silent_def stub_def dispatch_def entry_map_def
      retrieve_run_def)

lemma steps_stub: "steps 3 stub retrieve_run = Inr accepted_run"
  by (simp add: eval_nat_numeral exec_node_def retrieve_def grade_documents_def generate_def
      merge_def stub_def retrieve_run_def accepted_run_def doc_a_def doc_b_def
      decide_to_generate_def dispatch_def grade_documents_map_def generate_map_def
      grade_generation_v_documents_and_question_def Let_def)

lemma steps_stub_silent: "steps 3 stub_silent retrieve_run = Inr silent_run"
  by (simp add: eval_nat_numeral exec_node_def retrieve_def grade_documents_def generate_def
      merge_def stub_silent_def stub_def retrieve_run_def silent_run_def doc_a_def doc_b_def
      decide_to_generate_def dispatch_def grade_documents_map_def generate_map_def
      grade_generation_v_documents_and_question_def Let_def)

lemma stream_stub: "stream recursion_limit stub retrieve_run = Inr accepted_run"
proof -
  have "stream (3 + 22) stub retrieve_run = Inr accepted_run"
    by (rule stream_of_steps [OF steps_stub]) (simp add: accepted_run_def)
  then show ?thesis by (simp add: recursion_limit_def)
qed

lemma stream_stub_silent: "stream recursion_limit stub_silent retrieve_run = Inr silent_run"
proof -
  have "stream (3 + 22) stub_silent retrieve_run = Inr silent_run"
    by (rule stream_of_steps [OF steps_stub_silent]) (simp add: silent_run_def)
  then show ?thesis by (simp add: recursion_limit_def)
qed

lemma agent_steps_direct: "agent_steps 1 agent_direct (agent_start ''q'' []) = Inr direct_run"
  by (simp add: agent_start_def agent_exec_node_def agent_def merge_agent_def add_messages_def
      tools_condition_def dispatch_agent_def agent_map_def agent_direct_def agent_stub_def
      direct_run_def Let_def)

lemma agent_stream_direct:
  "agent_stream recursion_limit agent_direct (agent_start ''q'' []) = Inr direct_run"
proof -
  have "agent_stream (1 + 24) agent_direct (agent_start ''q'' []) = Inr direct_run"
    by (rule agent_stream_of_steps [OF agent_steps_direct]) (simp add: direct_run_def)
  then show ?thesis by (simp add: recursion_limit_def)
qed

lemma agent_stream_stub:
  "agent_stream recursion_limit agent_stub (agent_start ''q'' []) = Inr agent_final"
proof -
  have "agent_stream (6 + 19) agent_stub (agent_start ''q'' []) = Inr agent_final"
    by (rule agent_stream_of_steps [OF agent_stub_run]) (simp add: agent_final_def)
  then show ?thesis by (simp add: recursion_limit_def)
qed

text \<open>
  C7, counterexample: a generator that returns the empty string is accepted by graders that
  answer \<open>yes\<close>, and the run returns an empty generation; an agent that requests no tool
  ends the agent-first run after the single step \<open>agent\<close>, with no \<open>generate\<close> step.
\<close>

theorem accepted_run_generation_counterexample:
  "run stub_silent ''q'' 0 =
     Inr (Some \<lparr>question = Some ''q'', documents = Some (DocList [doc_a]), generation = Some ''''\<rparr>)
   \<and> agent_stream recursion_limit agent_direct (agent_start ''q'' []) = Inr direct_run
   \<and> map fst (a_trace direct_run) = [Agent]
   \<and> query agent_direct ''q'' [] = Inr (Text no_answer)"
  by (simp add: run_def start_stub_silent stream_stub_silent query_def agent_stream_direct)
    (simp add: silent_run_def final_state_def direct_run_def)

theorem accepted_run_generation_witness:
  "start stub ''q'' 0 = Inr retrieve_run
   \<and> stream recursion_limit stub retrieve_run = Inr accepted_run
   \<and> run stub ''q'' 0 =
       Inr (Some \<lparr>question = Some ''q'', documents = Some (DocList [doc_a]), generation = Some ''answer''\<rparr>)
   \<and> agent_stream recursion_limit agent_stub (agent_start ''q'' []) = Inr agent_final
   \<and> query agent_stub ''q'' [] = Inr (Text ''answer'')"
proof -
  note inst = accepted_run_generation
    [where c = stub and q = "''q''" and w = 0 and ?r0.0 = retrieve_run and r = accepted_run
       and ca = agent_stub and qa = "''q''" and wa = "[]" and ra = agent_final]
  have fs: "final_state accepted_run =
      Some \<lparr>question = Some ''q'', documents = Some (DocList [doc_a]), generation = Some ''answer''\<rparr>"
    by (simp add: final_state_def accepted_run_def)
  have "run stub ''q'' 0 = Inr (final_state accepted_run)"
    using inst by (simp add: start_stub stream_stub)
  moreover have "query agent_stub ''q'' [] = Inr (Text ''answer'')"
    by (simp add: query_def agent_stream_stub agent_final_def)
  ultimately show ?thesis
    by (simp add: start_stub stream_stub agent_stream_stub fs)
qed

end
